theory Spec2Isabelle
  imports
    Main
    "HOL-Library.Char_ord"
    "HOL-Library.List_Lexorder"
    "HOL-Library.Sublist"
begin

section \<open>Strings as the engine uses them\<close>

text \<open>
  A \<open>QString\<close> is modelled as a \<open>string\<close>; \<open>QString::operator<\<close> is the
  lexicographic order on character codes, which is the order of \<open>List_Lexorder\<close> over
  \<open>Char_ord\<close>.  Only the ASCII letters change under \<open>toUpper\<close>.
\<close>

definition toUpperChar :: "char \<Rightarrow> char" where
  "toUpperChar c =
     (case map_of (zip ''abcdefghijklmnopqrstuvwxyz'' ''ABCDEFGHIJKLMNOPQRSTUVWXYZ'') c of
        Some u \<Rightarrow> u
      | None \<Rightarrow> c)"

definition toUpper :: "string \<Rightarrow> string" where
  "toUpper s = map toUpperChar s"

text \<open>\<open>QString::left(n)\<close> and \<open>QString::right(n)\<close>: the whole string when \<open>n\<close> is
  negative or larger than the size.\<close>

definition left :: "int \<Rightarrow> string \<Rightarrow> string" where
  "left n s = (if n < 0 \<or> int (length s) < n then s else take (nat n) s)"

definition right :: "int \<Rightarrow> string \<Rightarrow> string" where
  "right n s = (if n < 0 \<or> int (length s) < n then s else drop (length s - nat n) s)"

text \<open>\<open>QStringList::mid(pos, length)\<close>: a negative length, or one reaching past the
  end, takes everything from \<open>pos\<close>.\<close>

definition mid :: "int \<Rightarrow> int \<Rightarrow> 'a list \<Rightarrow> 'a list" where
  "mid pos len xs =
     (if len < 0 \<or> int (length xs) < pos + len then drop (nat pos) xs
      else take (nat len) (drop (nat pos) xs))"

text \<open>\<open>QString::split(QChar(' '))\<close> keeps empty parts.\<close>

fun splitSpace :: "string \<Rightarrow> string list" where
  "splitSpace [] = [[]]"
| "splitSpace (c # cs) =
     (if c = CHR '' '' then [] # splitSpace cs
      else (case splitSpace cs of [] \<Rightarrow> [[c]] | w # ws \<Rightarrow> (c # w) # ws))"

text \<open>\<open>QString::simplified()\<close>: white space stripped at both ends, every inner run of
  white space replaced by one space.\<close>

definition isSpace :: "char \<Rightarrow> bool" where
  "isSpace c = (c \<in> set [CHR '' '', CHR 0x09, CHR 0x0A, CHR 0x0B, CHR 0x0C, CHR 0x0D])"

fun tokens :: "string \<Rightarrow> string \<Rightarrow> string list" where
  "tokens acc [] = (if acc = [] then [] else [rev acc])"
| "tokens acc (c # cs) =
     (if isSpace c then (if acc = [] then tokens [] cs else rev acc # tokens [] cs)
      else tokens (c # acc) cs)"

fun joinSpace :: "string list \<Rightarrow> string" where
  "joinSpace [] = []"
| "joinSpace [w] = w"
| "joinSpace (w # ws) = w @ '' '' @ joinSpace ws"

definition simplified :: "string \<Rightarrow> string" where
  "simplified s = joinSpace (tokens [] s)"

text \<open>\<open>line.section(' ', 0, 0)\<close>: the text before the first space.\<close>

definition section0 :: "string \<Rightarrow> string" where
  "section0 s = takeWhile (\<lambda>c. c \<noteq> CHR '' '') s"


section \<open>Collaborators outside \<open>WordEngine.cpp\<close>\<close>

text \<open>Modelled from the spec: \<open>Auxil::getAlphagram\<close> is not part of the sources at
  hand; the glossary defines an alphagram as the letters of a word sorted into canonical
  order.\<close>

definition getAlphagram :: "string \<Rightarrow> string" where
  "getAlphagram w = sort w"

text \<open>Modelled from the spec: \<open>Auxil::getNumVowels\<close> and
  \<open>Auxil::getNumUniqueLetters\<close> are not part of the sources at hand; the vowel count
  is computed directly from the word, and unique letters are its distinct letters.\<close>

definition Auxil_getNumVowels :: "string \<Rightarrow> int" where
  "Auxil_getNumVowels w = int (length (filter (\<lambda>c. c \<in> set ''AEIOU'') w))"

definition Auxil_getNumUniqueLetters :: "string \<Rightarrow> int" where
  "Auxil_getNumUniqueLetters w = int (length (remdups w))"

text \<open>Modelled from the spec: \<open>WordGraph\<close> is not part of the sources at hand.  The
  spec gives it a membership test and an idempotent insertion; it is modelled by the
  list of its distinct words, in insertion order.\<close>

type_synonym WordGraph = "string list"

definition containsWord :: "WordGraph \<Rightarrow> string \<Rightarrow> bool" where
  "containsWord g w = (w \<in> set g)"


datatype SearchSet =
    UnknownSearchSet
  | SetHookWords
  | SetFrontHooks
  | SetBackHooks
  | SetHighFives
  | SetTypeOneSevens
  | SetTypeOneEights
  | SetTypeTwoSevens
  | SetTypeTwoEights
  | SetTypeThreeSevens
  | SetTypeThreeEights
  | SetEightsFromSevenLetterStems

datatype ConditionType =
    UnknownSearchType
  | PatternMatch
  | AnagramMatch
  | SubanagramMatch
  | Length
  | Prefix
  | Suffix
  | IncludeLetters
  | ConsistOf
  | BelongToGroup
  | InWordList
  | NumAnagrams
  | NumVowels
  | NumUniqueLetters
  | PointValue
  | ProbabilityOrder
  | LimitByProbabilityOrder

record SearchCondition =
  type :: ConditionType
  stringValue :: string
  minValue :: int
  maxValue :: int
  boolValue :: bool
  negated :: bool
  legacy :: bool

record SearchSpec =
  conjunction :: bool
  conditions :: "SearchCondition list"

text \<open>A \<open>LetterBag\<close> is either default-constructed or built from a distribution
  string.\<close>

datatype LetterBag = DefaultBag | BagOf string

text \<open>
  The remaining collaborators are parameters of the model: \<open>SearchSpec::optimize\<close>,
  \<open>WordGraph::search\<close>, \<open>Auxil::stringToSearchSet\<close> and the two \<open>LetterBag\<close>
  queries.  \<open>getNumCombinations\<close> returns a \<open>double\<close> in the source that holds a
  whole number; it is an \<open>int\<close> here.
\<close>

record Collaborators =
  optimize :: "SearchSpec \<Rightarrow> SearchSpec"
  graphSearch :: "WordGraph \<Rightarrow> SearchSpec \<Rightarrow> string list"
  stringToSearchSet :: "string \<Rightarrow> SearchSet"
  getNumCombinations :: "LetterBag \<Rightarrow> string \<Rightarrow> int"
  getLetterValue :: "LetterBag \<Rightarrow> char \<Rightarrow> int"

section \<open>The data of a lexicon\<close>

record WordInfo =
  word :: string
  probabilityOrder :: int
  minProbabilityOrder :: int
  maxProbabilityOrder :: int
  numVowels :: int
  numUniqueLetters :: int
  numAnagrams :: int
  pointValue :: int
  frontHooks :: string
  backHooks :: string
  isFrontHook :: bool
  isBackHook :: bool
  lexiconSymbols :: string
  definitionText :: string

text \<open>The default-constructed \<open>WordInfo()\<close>.\<close>

definition WordInfo0 :: WordInfo where
  "WordInfo0 =
     \<lparr> word = [], probabilityOrder = 0, minProbabilityOrder = 0, maxProbabilityOrder = 0,
       numVowels = 0, numUniqueLetters = 0, numAnagrams = 0, pointValue = 0,
       frontHooks = [], backHooks = [], isFrontHook = False, isBackHook = False,
       lexiconSymbols = [], definitionText = [] \<rparr>"

text \<open>Modelled from the spec: the declaration of \<open>WordInfo\<close> is not part of the sources
  at hand.  Its validity flag tells a row that was found from an absent or empty one; no
  code of \<open>WordEngine.cpp\<close> sets a flag, so validity is read off the word field, which
  only a found row fills in.\<close>

definition isValid :: "WordInfo \<Rightarrow> bool" where
  "isValid info = (word info \<noteq> [])"

text \<open>One row of the table \<open>words\<close>, with the columns the queries name.\<close>

record WordRow =
  col_word :: string
  col_length :: int
  col_probability_order :: int
  col_min_probability_order :: int
  col_max_probability_order :: int
  col_num_vowels :: int
  col_num_unique_letters :: int
  col_num_anagrams :: int
  col_point_value :: int
  col_front_hooks :: string
  col_back_hooks :: string
  col_is_front_hook :: bool
  col_is_back_hook :: bool
  col_lexicon_symbols :: string
  col_definition :: string

record Database =
  rows :: "WordRow list"
  isOpen :: bool

record LexiconData =
  graph :: WordGraph
  db :: "Database option"
  wordCache :: "string \<rightharpoonup> WordInfo"
  numAnagramsMap :: "string \<rightharpoonup> int"
  stems :: "int \<rightharpoonup> string list"
  stemAlphagrams :: "int \<rightharpoonup> string set"
  definitions :: "string \<rightharpoonup> (string \<times> string) list"

text \<open>The engine: \<open>lexiconData\<close>, from lexicon name to the data of the lexicon.\<close>

type_synonym WordEngine = "string \<rightharpoonup> LexiconData"

section \<open>Acceptability and set membership\<close>

definition lexiconIsLoaded :: "WordEngine \<Rightarrow> string \<Rightarrow> bool" where
  "lexiconIsLoaded eng lexicon = (eng lexicon \<noteq> None)"

definition isAcceptable :: "WordEngine \<Rightarrow> string \<Rightarrow> string \<Rightarrow> bool" where
  "isAcceptable eng lexicon w =
     (case eng lexicon of
        None \<Rightarrow> False
      | Some d \<Rightarrow> containsWord (graph d) w)"

definition typeTwoChars :: string where
  "typeTwoChars = ''AAADEEEEGIIILNNOORRSSTTU''"

definition letterBag :: LetterBag where
  "letterBag = BagOf (''A:9 B:2 C:2 D:4 E:12 F:2 G:3 H:2 I:9 J:1 '' @
                      ''K:1 L:4 M:2 N:6 O:8 P:2 Q:1 R:6 S:4 T:6 '' @
                      ''U:4 V:2 W:2 X:1 Y:2 Z:1 _:2'')"

definition typeThreeSevenCombos :: "Collaborators \<Rightarrow> int" where
  "typeThreeSevenCombos E = getNumCombinations E letterBag ''HUNTERS''"

definition typeThreeEightCombos :: "Collaborators \<Rightarrow> int" where
  "typeThreeEightCombos E = getNumCombinations E letterBag ''NOTIFIED''"

text \<open>The loop of \<open>SetHighFives\<close> over the letters of the word; \<open>i\<close> is the index of
  the head of the remaining letters.\<close>

fun highFivesLoop :: "Collaborators \<Rightarrow> string \<Rightarrow> int \<Rightarrow> bool \<Rightarrow> bool" where
  "highFivesLoop E [] i ok = ok"
| "highFivesLoop E (c # cs) i ok =
     (let v = getLetterValue E letterBag c in
      if v > 5 then False
      else highFivesLoop E cs (i + 1) (ok \<or> ((v = 4 \<or> v = 5) \<and> (i = 0 \<or> i = 4))))"

text \<open>The loop shared by \<open>SetTypeOneSevens\<close> and \<open>SetEightsFromSevenLetterStems\<close>:
  some \<open>i\<close> below the length with \<open>agram.left(i) + agram.right(length - i - 1)\<close> in
  the set.\<close>

definition oneLetterRemoved :: "string set \<Rightarrow> string \<Rightarrow> bool" where
  "oneLetterRemoved alphaSet agram =
     list_ex (\<lambda>i. left (int i) agram @ right (int (length agram) - int i - 1) agram
                     \<in> alphaSet)
       [0 ..< length agram]"

text \<open>The inner loop of \<open>SetTypeOneEights\<close>: the two lists are the letters of
  \<open>agram\<close> from \<open>i\<close> on and of \<open>setAlphagram\<close> from \<open>saIndex\<close> on; the value is
  \<open>missing\<close> when the loop is left.\<close>

fun countMissing :: "string \<Rightarrow> string \<Rightarrow> int \<Rightarrow> int" where
  "countMissing (a # as) (s # ss) missing =
     (if a = s then countMissing as ss missing
      else if missing + 1 > 2 then missing + 1
      else countMissing as (s # ss) (missing + 1))"
| "countMissing [] ss missing = missing"
| "countMissing (a # as) [] missing = missing"

text \<open>The loop of the Type-Two sets over \<open>typeTwoChars\<close>; the second list is the
  alphagram from \<open>wi\<close> on.  The alphagram is not empty when the loop starts, as the
  word has seven or eight letters.\<close>

fun typeTwoLoop :: "string \<Rightarrow> string \<Rightarrow> bool" where
  "typeTwoLoop (tc # tcs) (wc # rest) =
     (if tc = wc then (if rest = [] then True else typeTwoLoop tcs rest)
      else typeTwoLoop tcs (wc # rest))"
| "typeTwoLoop tcs rest = False"

fun tier :: "SearchSet \<Rightarrow> nat" where
  "tier SetTypeTwoSevens = 1"
| "tier SetTypeTwoEights = 1"
| "tier SetTypeThreeSevens = 2"
| "tier SetTypeThreeEights = 2"
| "tier ss = 0"

function isSetMember ::
  "Collaborators \<Rightarrow> WordEngine \<Rightarrow> string \<Rightarrow> string \<Rightarrow> SearchSet \<Rightarrow> bool" where
  "isSetMember E eng lexicon w ss =
     (case eng lexicon of
        None \<Rightarrow> False
      | Some d \<Rightarrow>
         (case ss of
            SetHookWords \<Rightarrow>
              isAcceptable eng lexicon (left (int (length w) - 1) w) \<or>
              isAcceptable eng lexicon (right (int (length w) - 1) w)
          | SetFrontHooks \<Rightarrow> isAcceptable eng lexicon (right (int (length w) - 1) w)
          | SetBackHooks \<Rightarrow> isAcceptable eng lexicon (left (int (length w) - 1) w)
          | SetHighFives \<Rightarrow>
              (if length w \<noteq> 5 then False else highFivesLoop E w 0 False)
          | SetTypeOneSevens \<Rightarrow>
              (if length w \<noteq> 7 then False
               else (case stemAlphagrams d (int (length w) - 1) of
                       None \<Rightarrow> False
                     | Some alphaSet \<Rightarrow> oneLetterRemoved alphaSet (getAlphagram w)))
          | SetTypeOneEights \<Rightarrow>
              (if length w \<noteq> 8 then False
               else (case stemAlphagrams d (int (length w) - 2) of
                       None \<Rightarrow> False
                     | Some alphaSet \<Rightarrow>
                         (\<exists>setAlphagram \<in> alphaSet.
                            countMissing (getAlphagram w) setAlphagram 0 \<le> 2)))
          | SetTypeTwoSevens \<Rightarrow>
              (if length w \<noteq> 7 then False
               else typeTwoLoop typeTwoChars (getAlphagram w) \<and>
                    \<not> isSetMember E eng lexicon w SetTypeOneSevens)
          | SetTypeTwoEights \<Rightarrow>
              (if length w \<noteq> 8 then False
               else typeTwoLoop typeTwoChars (getAlphagram w) \<and>
                    \<not> isSetMember E eng lexicon w SetTypeOneEights)
          | SetTypeThreeSevens \<Rightarrow>
              (if length w \<noteq> 7 then False
               else typeThreeSevenCombos E \<le> getNumCombinations E letterBag w \<and>
                    \<not> isSetMember E eng lexicon w SetTypeOneSevens \<and>
                    \<not> isSetMember E eng lexicon w SetTypeTwoSevens)
          | SetTypeThreeEights \<Rightarrow>
              (if length w \<noteq> 8 then False
               else typeThreeEightCombos E \<le> getNumCombinations E letterBag w \<and>
                    \<not> isSetMember E eng lexicon w SetTypeOneEights \<and>
                    \<not> isSetMember E eng lexicon w SetTypeTwoEights)
          | SetEightsFromSevenLetterStems \<Rightarrow>
              (if length w \<noteq> 8 then False
               else (case stemAlphagrams d (int (length w) - 1) of
                       None \<Rightarrow> False
                     | Some alphaSet \<Rightarrow> oneLetterRemoved alphaSet (getAlphagram w)))
          | UnknownSearchSet \<Rightarrow> False))"
  by pat_completeness auto
termination
  by (relation "measure (\<lambda>(E, eng, lexicon, w, ss). tier ss)") auto

declare isSetMember.simps [simp del]

section \<open>Search phases\<close>

datatype ConditionPhase = UnknownPhase | WordGraphPhase | DatabasePhase | PostConditionPhase

definition getConditionPhase :: "Collaborators \<Rightarrow> SearchCondition \<Rightarrow> ConditionPhase" where
  "getConditionPhase E condition =
     (case type condition of
        AnagramMatch \<Rightarrow> WordGraphPhase
      | SubanagramMatch \<Rightarrow> WordGraphPhase
      | ConsistOf \<Rightarrow> WordGraphPhase
      | Length \<Rightarrow> DatabasePhase
      | InWordList \<Rightarrow> DatabasePhase
      | NumVowels \<Rightarrow> DatabasePhase
      | IncludeLetters \<Rightarrow> DatabasePhase
      | ProbabilityOrder \<Rightarrow> DatabasePhase
      | NumUniqueLetters \<Rightarrow> DatabasePhase
      | PointValue \<Rightarrow> DatabasePhase
      | NumAnagrams \<Rightarrow> DatabasePhase
      | Prefix \<Rightarrow> PostConditionPhase
      | Suffix \<Rightarrow> PostConditionPhase
      | LimitByProbabilityOrder \<Rightarrow> PostConditionPhase
      | PatternMatch \<Rightarrow>
          (if prefix ''*'' (stringValue condition) \<and> suffix ''*'' (stringValue condition)
              \<and> CHR ''['' \<notin> set (stringValue condition)
           then DatabasePhase else WordGraphPhase)
      | BelongToGroup \<Rightarrow>
          (let searchSet = stringToSearchSet E (stringValue condition) in
           if searchSet = SetHookWords \<or> searchSet = SetFrontHooks \<or> searchSet = SetBackHooks
           then DatabasePhase else PostConditionPhase)
      | UnknownSearchType \<Rightarrow> UnknownPhase)"

section \<open>The queries sent to the database\<close>

text \<open>
  \<open>databaseSearch\<close> builds the text of a query \<open>SELECT word FROM words WHERE ...\<close>.
  The model builds the conditions of the \<open>WHERE\<close> clause as a list of atoms joined by
  \<open>AND\<close>; \<open>sqlText\<close> gives the text the source appends for an atom, and \<open>evalSql\<close>
  the meaning of the atom on a row.  The strings placed between quotes are taken to
  contain no quote themselves.
\<close>

datatype IntColumn =
    length_col
  | num_vowels_col
  | num_unique_letters_col
  | point_value_col
  | num_anagrams_col
  | probability_order_col
  | min_probability_order_col
  | max_probability_order_col

datatype FlagColumn = is_front_hook_col | is_back_hook_col

datatype Comparison = Equal | AtLeast | AtMost

datatype SqlAtom =
    WordLike bool string
  | IntCompare IntColumn Comparison int
  | FlagIs FlagColumn int
  | NeitherHook
  | EitherHook
  | WordIn bool "string list"

text \<open>\<open>QString::number\<close> on an \<open>int\<close>.\<close>

fun showNat :: "nat \<Rightarrow> string" where
  "showNat n =
     (if n < 10 then [''0123456789'' ! n]
      else showNat (n div 10) @ [''0123456789'' ! (n mod 10)])"








text \<open>
  The \<open>LIKE\<close> operator as the database evaluates it: \<open>%\<close> stands for any run of
  characters, \<open>_\<close> for any one character, and letters match without regard to ASCII
  case.
\<close>

fun likeMatch :: "string \<Rightarrow> string \<Rightarrow> bool" where
  "likeMatch [] t = (t = [])"
| "likeMatch (p # ps) [] = (p = CHR ''%'' \<and> likeMatch ps [])"
| "likeMatch (p # ps) (c # cs) =
     (if p = CHR ''%'' then likeMatch ps (c # cs) \<or> likeMatch (p # ps) cs
      else (p = CHR ''_'' \<or> toUpperChar p = toUpperChar c) \<and> likeMatch ps cs)"

fun intColumn :: "IntColumn \<Rightarrow> WordRow \<Rightarrow> int" where
  "intColumn length_col r = col_length r"
| "intColumn num_vowels_col r = col_num_vowels r"
| "intColumn num_unique_letters_col r = col_num_unique_letters r"
| "intColumn point_value_col r = col_point_value r"
| "intColumn num_anagrams_col r = col_num_anagrams r"
| "intColumn probability_order_col r = col_probability_order r"
| "intColumn min_probability_order_col r = col_min_probability_order r"
| "intColumn max_probability_order_col r = col_max_probability_order r"

fun flagColumn :: "FlagColumn \<Rightarrow> WordRow \<Rightarrow> int" where
  "flagColumn is_front_hook_col r = (if col_is_front_hook r then 1 else 0)"
| "flagColumn is_back_hook_col r = (if col_is_back_hook r then 1 else 0)"

fun compareInt :: "Comparison \<Rightarrow> int \<Rightarrow> int \<Rightarrow> bool" where
  "compareInt Equal a b = (a = b)"
| "compareInt AtLeast a b = (a \<ge> b)"
| "compareInt AtMost a b = (a \<le> b)"

fun evalSql :: "WordRow \<Rightarrow> SqlAtom \<Rightarrow> bool" where
  "evalSql r (WordLike neg pat) =
     (if neg then \<not> likeMatch pat (col_word r) else likeMatch pat (col_word r))"
| "evalSql r (IntCompare col cmp v) = compareInt cmp (intColumn col r) v"
| "evalSql r (FlagIs col v) = (flagColumn col r = v)"
| "evalSql r NeitherHook = (\<not> col_is_front_hook r \<and> \<not> col_is_back_hook r)"
| "evalSql r EitherHook = (col_is_front_hook r \<or> col_is_back_hook r)"
| "evalSql r (WordIn neg ws) = (if neg then col_word r \<notin> set ws else col_word r \<in> set ws)"

text \<open>The \<open>QMap<QChar, int>\<close> that counts the letters of an \<open>IncludeLetters\<close> string,
  as the list of its entries in key order.\<close>

fun incrementLetter :: "char \<Rightarrow> (char \<times> int) list \<Rightarrow> (char \<times> int) list" where
  "incrementLetter c [] = [(c, 1)]"
| "incrementLetter c ((k, n) # kns) =
     (if c < k then (c, 1) # (k, n) # kns
      else if c = k then (k, n + 1) # kns
      else (k, n) # incrementLetter c kns)"

definition letterCounts :: "string \<Rightarrow> (char \<times> int) list" where
  "letterCounts str = fold incrementLetter str []"

definition includeLettersPattern :: "char \<Rightarrow> int \<Rightarrow> string" where
  "includeLettersPattern c count = ''%'' @ concat (replicate (nat count) [c, CHR ''%''])"

definition includeLettersSql :: "SearchCondition \<Rightarrow> SqlAtom list" where
  "includeLettersSql condition =
     map (\<lambda>(c, n). WordLike (negated condition)
                     (includeLettersPattern c (if negated condition then 1 else n)))
       (letterCounts (stringValue condition))"

definition rangeSql :: "IntColumn \<Rightarrow> SearchCondition \<Rightarrow> SqlAtom list" where
  "rangeSql col condition =
     (if minValue condition = maxValue condition
      then [IntCompare col Equal (minValue condition)]
      else [IntCompare col AtLeast (minValue condition),
            IntCompare col AtMost (maxValue condition)])"

text \<open>The atoms one condition of the database phase adds to the query; no atom where
  the source appends no text.\<close>

definition conditionSql :: "Collaborators \<Rightarrow> SearchCondition \<Rightarrow> SqlAtom list" where
  "conditionSql E condition =
     (case type condition of
        PatternMatch \<Rightarrow>
          [WordLike False
             (map (\<lambda>c. if c = CHR ''?'' then CHR ''_'' else if c = CHR ''*'' then CHR ''%'' else c)
                (stringValue condition))]
      | ProbabilityOrder \<Rightarrow>
          (if boolValue condition
           then [IntCompare max_probability_order_col AtLeast (minValue condition),
                 IntCompare min_probability_order_col AtMost (maxValue condition)]
           else rangeSql probability_order_col condition)
      | Length \<Rightarrow> rangeSql length_col condition
      | NumVowels \<Rightarrow> rangeSql num_vowels_col condition
      | NumUniqueLetters \<Rightarrow> rangeSql num_unique_letters_col condition
      | PointValue \<Rightarrow> rangeSql point_value_col condition
      | NumAnagrams \<Rightarrow> rangeSql num_anagrams_col condition
      | IncludeLetters \<Rightarrow> includeLettersSql condition
      | BelongToGroup \<Rightarrow>
          (let searchSet = stringToSearchSet E (stringValue condition);
               target = (if negated condition then 0 else 1)
           in if searchSet = SetFrontHooks then [FlagIs is_front_hook_col target]
              else if searchSet = SetBackHooks then [FlagIs is_back_hook_col target]
              else if searchSet = SetHookWords
                then (if negated condition then [NeitherHook] else [EitherHook])
              else [])
      | InWordList \<Rightarrow> [WordIn (negated condition) (splitSpace (stringValue condition))]
      | _ \<Rightarrow> [])"

text \<open>The calls that reach a backend, in the order the engine makes them: the search of
  the word graph and the three kinds of query sent to the database.\<close>

datatype BackendCall = GraphSearch | SearchQuery | WordQuery | CacheQuery

section \<open>The database phase\<close>


text \<open>The text is a query only if at least one condition added text and none added
  an empty text; otherwise an \<open>AND\<close> or the \<open>WHERE\<close> lacks an operand and the database
  answers with no row.  Rows come in the order of the table.\<close>

definition wellFormed :: "SqlAtom list list \<Rightarrow> bool" where
  "wellFormed fragments = (fragments \<noteq> [] \<and> list_all (\<lambda>atoms. atoms \<noteq> []) fragments)"

definition runQuery :: "Database \<Rightarrow> SqlAtom list list \<Rightarrow> SqlAtom list \<Rightarrow> string list" where
  "runQuery database fragments restriction =
     (if isOpen database \<and> wellFormed fragments
      then map col_word
             (filter (\<lambda>r. list_all (evalSql r) (concat fragments @ restriction))
                (rows database))
      else [])"

text \<open>\<open>upperToLower\<close>: from the upper-cased word to the word as the list has it; a
  later word of the list replaces an earlier one with the same upper case.\<close>

definition upperToLower :: "string list \<Rightarrow> string \<rightharpoonup> string" where
  "upperToLower wordList = fold (\<lambda>w m. m(toUpper w \<mapsto> w)) wordList Map.empty"

definition databaseSearch ::
  "Collaborators \<Rightarrow> WordEngine \<Rightarrow> string \<Rightarrow> SearchSpec \<Rightarrow> string list option
     \<Rightarrow> string list \<times> BackendCall list" where
  "databaseSearch E eng lexicon optimizedSpec wordList =
     (case eng lexicon of
        None \<Rightarrow> ([], [])
      | Some d \<Rightarrow>
         (case db d of
            None \<Rightarrow> ([], [])
          | Some database \<Rightarrow>
              (let fragments =
                     map (conditionSql E)
                       (filter (\<lambda>condition. getConditionPhase E condition = DatabasePhase)
                          (conditions optimizedSpec));
                   remap = (case wordList of None \<Rightarrow> Map.empty | Some ws \<Rightarrow> upperToLower ws);
                   restriction =
                     (case wordList of None \<Rightarrow> [] | Some ws \<Rightarrow> [WordIn False (map toUpper ws)]);
                   found = runQuery database fragments restriction
               in (map (\<lambda>w. case remap w of Some original \<Rightarrow> original | None \<Rightarrow> w) found,
                   [SearchQuery]))))"

section \<open>The post-condition phase\<close>

fun matchesPostConditions ::
  "Collaborators \<Rightarrow> WordEngine \<Rightarrow> string \<Rightarrow> string \<Rightarrow> SearchCondition list \<Rightarrow> bool" where
  "matchesPostConditions E eng lexicon w [] = (eng lexicon \<noteq> None)"
| "matchesPostConditions E eng lexicon w (condition # rest) =
     (if eng lexicon = None then False
      else if getConditionPhase E condition \<noteq> PostConditionPhase
        then matchesPostConditions E eng lexicon w rest
      else (case type condition of
              Prefix \<Rightarrow>
                (if (\<not> isAcceptable eng lexicon (stringValue condition @ toUpper w))
                      \<noteq> negated condition
                 then False else matchesPostConditions E eng lexicon w rest)
            | Suffix \<Rightarrow>
                (if (\<not> isAcceptable eng lexicon (toUpper w @ stringValue condition))
                      \<noteq> negated condition
                 then False else matchesPostConditions E eng lexicon w rest)
            | BelongToGroup \<Rightarrow>
                (let searchSet = stringToSearchSet E (stringValue condition) in
                 if searchSet = UnknownSearchSet
                   then matchesPostConditions E eng lexicon w rest
                 else if (\<not> isSetMember E eng lexicon (toUpper w) searchSet)
                           \<noteq> negated condition
                   then False
                 else matchesPostConditions E eng lexicon w rest)
            | _ \<Rightarrow> matchesPostConditions E eng lexicon w rest))"

text \<open>The limits collected from the \<open>LimitByProbabilityOrder\<close> conditions.\<close>

record ProbLimits =
  probLimitRangeCondition :: bool
  legacyProbCondition :: bool
  probLimitRangeMin :: int
  probLimitRangeMax :: int
  probLimitRangeMinLax :: int
  probLimitRangeMaxLax :: int

definition noProbLimits :: ProbLimits where
  "noProbLimits =
     \<lparr> probLimitRangeCondition = False, legacyProbCondition = False,
       probLimitRangeMin = 0, probLimitRangeMax = 999999,
       probLimitRangeMinLax = 0, probLimitRangeMaxLax = 999999 \<rparr>"

definition collectLimit :: "SearchCondition \<Rightarrow> ProbLimits \<Rightarrow> ProbLimits" where
  "collectLimit condition p =
     (if type condition \<noteq> LimitByProbabilityOrder then p
      else
        (let p1 = p\<lparr>probLimitRangeCondition := True\<rparr>;
             p2 = (if boolValue condition
                   then p1\<lparr>probLimitRangeMinLax :=
                              (if minValue condition > probLimitRangeMinLax p1
                               then minValue condition else probLimitRangeMinLax p1),
                           probLimitRangeMaxLax :=
                              (if maxValue condition < probLimitRangeMaxLax p1
                               then maxValue condition else probLimitRangeMaxLax p1)\<rparr>
                   else p1\<lparr>probLimitRangeMin :=
                              (if minValue condition > probLimitRangeMin p1
                               then minValue condition else probLimitRangeMin p1),
                           probLimitRangeMax :=
                              (if maxValue condition < probLimitRangeMax p1
                               then maxValue condition else probLimitRangeMax p1)\<rparr>)
         in if legacy condition then p2\<lparr>legacyProbCondition := True\<rparr> else p2))"

definition probLimits :: "SearchCondition list \<Rightarrow> ProbLimits" where
  "probLimits conds = fold collectLimit conds noProbLimits"

text \<open>From 1-based to 0-based offsets, clamped to the list of \<open>n\<close> words.\<close>

definition zeroBased :: "int \<Rightarrow> ProbLimits \<Rightarrow> ProbLimits" where
  "zeroBased n p =
     p\<lparr>probLimitRangeMin := (if probLimitRangeMin p - 1 < 0 then 0 else probLimitRangeMin p - 1),
       probLimitRangeMinLax :=
         (if probLimitRangeMinLax p - 1 < 0 then 0 else probLimitRangeMinLax p - 1),
       probLimitRangeMax :=
         (if probLimitRangeMax p - 1 > n - 1 then n - 1 else probLimitRangeMax p - 1),
       probLimitRangeMaxLax :=
         (if probLimitRangeMaxLax p - 1 > n - 1 then n - 1
          else probLimitRangeMaxLax p - 1)\<rparr>"

definition workingMin :: "ProbLimits \<Rightarrow> int" where
  "workingMin p =
     (if probLimitRangeMin p > probLimitRangeMinLax p then probLimitRangeMin p
      else probLimitRangeMinLax p)"

definition workingMax :: "ProbLimits \<Rightarrow> int" where
  "workingMax p =
     (if probLimitRangeMax p < probLimitRangeMaxLax p then probLimitRangeMax p
      else probLimitRangeMaxLax p)"

text \<open>\<open>radix.sprintf("%09.0f", x)\<close> for a whole number \<open>x\<close>: at least nine characters,
  padded with zeros after the sign.\<close>

definition sprintf_09_0f :: "int \<Rightarrow> string" where
  "sprintf_09_0f x =
     (if x < 0
      then CHR ''-'' # replicate (8 - length (showNat (nat (- x)))) CHR ''0''
             @ showNat (nat (- x))
      else replicate (9 - length (showNat (nat x))) CHR ''0'' @ showNat (nat x))"

definition radix :: "Collaborators \<Rightarrow> bool \<Rightarrow> string \<Rightarrow> string" where
  "radix E legacyProb w =
     sprintf_09_0f (1000000000 - 1 - getNumCombinations E DefaultBag (toUpper w))
     @ (if \<not> legacyProb then getAlphagram (toUpper w) else [])
     @ toUpper w"

text \<open>\<open>QMap::insert\<close> on the list of entries in key order: the value of a key that is
  present is replaced.\<close>

fun qmapInsert :: "'k::linorder \<Rightarrow> 'v \<Rightarrow> ('k \<times> 'v) list \<Rightarrow> ('k \<times> 'v) list" where
  "qmapInsert k v [] = [(k, v)]"
| "qmapInsert k v ((k', v') # kvs) =
     (if k < k' then (k, v) # (k', v') # kvs
      else if k = k' then (k, v) # kvs
      else (k', v') # qmapInsert k v kvs)"

definition probMap :: "Collaborators \<Rightarrow> bool \<Rightarrow> string list \<Rightarrow> (string \<times> string) list" where
  "probMap E legacyProb returnList =
     fold (\<lambda>w m. qmapInsert (radix E legacyProb w) w m) returnList []"

text \<open>The two loops that move the ends of the window over the words whose key starts
  with the same nine characters.\<close>

function widenMin :: "string list \<Rightarrow> string \<Rightarrow> int \<Rightarrow> int \<Rightarrow> int" where
  "widenMin keys minCombinations minIdx strictMin =
     (if minIdx > 0 \<and> minIdx > strictMin
      then (if minCombinations \<noteq> left 9 (keys ! nat (minIdx - 1)) then minIdx
            else widenMin keys minCombinations (minIdx - 1) strictMin)
      else minIdx)"
  by pat_completeness auto
termination
  by (relation "measure (\<lambda>(keys, c, minIdx, strictMin). nat minIdx)") auto

function widenMax :: "string list \<Rightarrow> string \<Rightarrow> int \<Rightarrow> int \<Rightarrow> int" where
  "widenMax keys maxCombinations maxIdx strictMax =
     (if maxIdx < int (length keys) - 1 \<and> maxIdx < strictMax
      then (if maxCombinations \<noteq> left 9 (keys ! nat (maxIdx + 1)) then maxIdx
            else widenMax keys maxCombinations (maxIdx + 1) strictMax)
      else maxIdx)"
  by pat_completeness auto
termination
  by (relation "measure (\<lambda>(keys, c, maxIdx, strictMax). nat (int (length keys) - maxIdx))") auto

declare widenMin.simps [simp del] widenMax.simps [simp del]

datatype Failure = IndexOutOfRange

text \<open>The window over the sorted words.  \<open>keys[min]\<close> and \<open>keys[max]\<close> are read
  without a check in the source; an index outside the list is the failure
  \<open>IndexOutOfRange\<close> here.\<close>

definition probWindow ::
  "(string \<times> string) list \<Rightarrow> ProbLimits \<Rightarrow> Failure + string list" where
  "probWindow pm p =
     (let keys = map fst pm;
          minIdx = workingMin p;
          maxIdx = workingMax p
      in if minIdx < 0 \<or> int (length keys) \<le> minIdx then Inl IndexOutOfRange
         else
           (let minIdx' = widenMin keys (left 9 (keys ! nat minIdx)) minIdx (probLimitRangeMin p)
            in if maxIdx < 0 \<or> int (length keys) \<le> maxIdx then Inl IndexOutOfRange
               else
                 (let maxIdx' = widenMax keys (left 9 (keys ! nat maxIdx)) maxIdx (probLimitRangeMax p)
                  in Inr (mid minIdx' (maxIdx' - minIdx' + 1) (map snd pm)))))"

definition applyPostConditions ::
  "Collaborators \<Rightarrow> WordEngine \<Rightarrow> string \<Rightarrow> SearchSpec \<Rightarrow> string list
     \<Rightarrow> Failure + string list" where
  "applyPostConditions E eng lexicon optimizedSpec wordList =
     (let returnList =
            filter (\<lambda>w. matchesPostConditions E eng lexicon w (conditions optimizedSpec))
              wordList;
          p = probLimits (conditions optimizedSpec)
      in if probLimitRangeCondition p
         then (if probLimitRangeMin p > int (length returnList)
                  \<or> probLimitRangeMinLax p > int (length returnList)
               then Inr []
               else probWindow (probMap E (legacyProbCondition p) returnList)
                      (zeroBased (int (length returnList)) p))
         else Inr returnList)"

section \<open>The cache of word information\<close>

definition clearCache :: "WordEngine \<Rightarrow> string \<Rightarrow> WordEngine" where
  "clearCache eng lexicon =
     (case eng lexicon of
        None \<Rightarrow> eng
      | Some d \<Rightarrow> eng(lexicon \<mapsto> d\<lparr>wordCache := Map.empty\<rparr>))"

text \<open>The \<open>WordInfo\<close> filled from the columns of one row.\<close>

definition wordInfoOfRow :: "WordRow \<Rightarrow> WordInfo" where
  "wordInfoOfRow r =
     \<lparr> word = col_word r,
       probabilityOrder = col_probability_order r,
       minProbabilityOrder = col_min_probability_order r,
       maxProbabilityOrder = col_max_probability_order r,
       numVowels = col_num_vowels r,
       numUniqueLetters = col_num_unique_letters r,
       numAnagrams = col_num_anagrams r,
       pointValue = col_point_value r,
       frontHooks = col_front_hooks r,
       backHooks = col_back_hooks r,
       isFrontHook = col_is_front_hook r,
       isBackHook = col_is_back_hook r,
       lexiconSymbols = col_lexicon_symbols r,
       definitionText = col_definition r \<rparr>"

definition getWordInfo ::
  "WordEngine \<Rightarrow> string \<Rightarrow> string \<Rightarrow> WordInfo \<times> WordEngine \<times> BackendCall list" where
  "getWordInfo eng lexicon w =
     (if w = [] then (WordInfo0, eng, [])
      else
        (case eng lexicon of
           None \<Rightarrow> (WordInfo0, eng, [])
         | Some d \<Rightarrow>
            (case wordCache d w of
               Some info \<Rightarrow> (info, eng, [])
             | None \<Rightarrow>
                (case db d of
                   None \<Rightarrow> (WordInfo0, eng, [])
                 | Some database \<Rightarrow>
                    (if \<not> isOpen database then (WordInfo0, eng, [])
                     else
                       (case find (\<lambda>r. col_word r = w) (rows database) of
                          None \<Rightarrow> (WordInfo0, eng, [WordQuery])
                        | Some r \<Rightarrow>
                            (let info = (wordInfoOfRow r)\<lparr>word := w\<rparr>
                             in (info,
                                 eng(lexicon \<mapsto> d\<lparr>wordCache := (wordCache d)(w \<mapsto> info)\<rparr>),
                                 [WordQuery]))))))))"

definition addToCache ::
  "WordEngine \<Rightarrow> string \<Rightarrow> string list \<Rightarrow> WordEngine \<times> BackendCall list" where
  "addToCache eng lexicon ws =
     (if ws = [] then (eng, [])
      else
        (case eng lexicon of
           None \<Rightarrow> (eng, [])
         | Some d \<Rightarrow>
            (case db d of
               None \<Rightarrow> (eng, [])
             | Some database \<Rightarrow>
                (if \<not> isOpen database then (eng, [])
                 else
                   (eng(lexicon \<mapsto>
                      d\<lparr>wordCache :=
                          fold (\<lambda>r cache. cache(col_word r \<mapsto> wordInfoOfRow r))
                            (filter (\<lambda>r. col_word r \<in> set ws) (rows database))
                            (wordCache d)\<rparr>),
                    [CacheQuery])))))"

section \<open>Search\<close>

definition wordGraphSearch ::
  "Collaborators \<Rightarrow> WordEngine \<Rightarrow> string \<Rightarrow> SearchSpec \<Rightarrow> string list" where
  "wordGraphSearch E eng lexicon optimizedSpec =
     (case eng lexicon of
        None \<Rightarrow> []
      | Some d \<Rightarrow> graphSearch E (graph d) optimizedSpec)"

text \<open>\<open>phaseCounts\<close> and \<open>lengthConditions\<close> after the loop over the conditions.\<close>

definition countPhase ::
  "Collaborators \<Rightarrow> SearchCondition \<Rightarrow> (ConditionPhase \<rightharpoonup> int) \<times> int
     \<Rightarrow> (ConditionPhase \<rightharpoonup> int) \<times> int" where
  "countPhase E condition acc =
     (let phaseCounts = fst acc;
          lengthConditions = snd acc;
          phase = getConditionPhase E condition
      in (phaseCounts(phase \<mapsto> (case phaseCounts phase of None \<Rightarrow> 0 | Some k \<Rightarrow> k) + 1),
          if type condition = Length then lengthConditions + 1 else lengthConditions))"

definition countPhases ::
  "Collaborators \<Rightarrow> SearchCondition list \<Rightarrow> (ConditionPhase \<rightharpoonup> int) \<times> int" where
  "countPhases E conds = fold (countPhase E) conds (Map.empty, 0)"

text \<open>\<open>phaseCounts\<close> as the three tests of \<open>search\<close> read it: a \<open>Length\<close> condition
  that \<open>optimize\<close> may have added lowers the count of the database phase, and the key
  stays in the map.\<close>

definition searchPhaseCounts ::
  "Collaborators \<Rightarrow> SearchCondition list \<Rightarrow> ConditionPhase \<rightharpoonup> int" where
  "searchPhaseCounts E conds =
     (let phaseCounts = fst (countPhases E conds);
          lengthConditions = snd (countPhases E conds)
      in if phaseCounts WordGraphPhase \<noteq> None \<and> lengthConditions \<noteq> 0
            \<and> lengthConditions = (case phaseCounts DatabasePhase of None \<Rightarrow> 0 | Some k \<Rightarrow> k)
         then phaseCounts(DatabasePhase \<mapsto>
                (case phaseCounts DatabasePhase of None \<Rightarrow> 0 | Some k \<Rightarrow> k) - 1)
         else phaseCounts)"

text \<open>The result of \<open>search\<close>: the words, the engine with its cache as the search
  leaves it, and the backend calls made.\<close>

definition finishSearch ::
  "WordEngine \<Rightarrow> string \<Rightarrow> bool \<Rightarrow> string list \<Rightarrow> BackendCall list
     \<Rightarrow> string list \<times> WordEngine \<times> BackendCall list" where
  "finishSearch eng lexicon allCaps resultList calls =
     (let resultList' = (if allCaps then map toUpper resultList else resultList)
      in if resultList' \<noteq> []
         then (let cached = addToCache (clearCache eng lexicon) lexicon resultList'
               in (resultList', fst cached, calls @ snd cached))
         else (resultList', eng, calls))"

definition search ::
  "Collaborators \<Rightarrow> WordEngine \<Rightarrow> string \<Rightarrow> SearchSpec \<Rightarrow> bool
     \<Rightarrow> Failure + (string list \<times> WordEngine \<times> BackendCall list)" where
  "search E eng lexicon spec allCaps =
     (if eng lexicon = None then Inr ([], eng, [])
      else
        (let optimizedSpec = optimize E spec;
             phaseCounts = searchPhaseCounts E (conditions optimizedSpec);
             useGraph = (phaseCounts WordGraphPhase \<noteq> None \<or> phaseCounts DatabasePhase = None);
             graphList = (if useGraph then wordGraphSearch E eng lexicon optimizedSpec else []);
             graphCalls = (if useGraph then [GraphSearch] else [])
         in if useGraph \<and> graphList = [] then Inr ([], eng, graphCalls)
            else
              (let useDatabase = (phaseCounts DatabasePhase \<noteq> None);
                   found =
                     (if useDatabase
                      then databaseSearch E eng lexicon optimizedSpec
                             (if phaseCounts WordGraphPhase \<noteq> None then Some graphList else None)
                      else (graphList, []));
                   calls = graphCalls @ snd found
               in if useDatabase \<and> fst found = [] then Inr ([], eng, calls)
                  else if phaseCounts PostConditionPhase \<noteq> None
                    then (case applyPostConditions E eng lexicon optimizedSpec (fst found) of
                            Inl failure \<Rightarrow> Inl failure
                          | Inr resultList \<Rightarrow>
                              Inr (finishSearch eng lexicon allCaps resultList calls))
                  else Inr (finishSearch eng lexicon allCaps (fst found) calls))))"

section \<open>Attributes of a word\<close>

definition getNumAnagrams :: "WordEngine \<Rightarrow> string \<Rightarrow> string \<Rightarrow> int \<times> WordEngine" where
  "getNumAnagrams eng lexicon w =
     (case eng lexicon of
        None \<Rightarrow> (0, eng)
      | Some d \<Rightarrow>
         (let looked = getWordInfo eng lexicon w; info = fst looked
          in (if isValid info then numAnagrams info
              else (case numAnagramsMap d (getAlphagram w) of None \<Rightarrow> 0 | Some k \<Rightarrow> k),
              fst (snd looked))))"

definition getProbabilityOrder :: "WordEngine \<Rightarrow> string \<Rightarrow> string \<Rightarrow> int \<times> WordEngine" where
  "getProbabilityOrder eng lexicon w =
     (if eng lexicon = None then (0, eng)
      else (let looked = getWordInfo eng lexicon w; info = fst looked
            in (if isValid info then probabilityOrder info else 0, fst (snd looked))))"

definition getMinProbabilityOrder :: "WordEngine \<Rightarrow> string \<Rightarrow> string \<Rightarrow> int \<times> WordEngine" where
  "getMinProbabilityOrder eng lexicon w =
     (if eng lexicon = None then (0, eng)
      else (let looked = getWordInfo eng lexicon w; info = fst looked
            in (if isValid info then minProbabilityOrder info else 0, fst (snd looked))))"

definition getMaxProbabilityOrder :: "WordEngine \<Rightarrow> string \<Rightarrow> string \<Rightarrow> int \<times> WordEngine" where
  "getMaxProbabilityOrder eng lexicon w =
     (if eng lexicon = None then (0, eng)
      else (let looked = getWordInfo eng lexicon w; info = fst looked
            in (if isValid info then maxProbabilityOrder info else 0, fst (snd looked))))"

text \<open>No test of \<open>lexiconData\<close> in the next two: the value is calculated from the word
  when no information is found.\<close>

definition getNumVowels :: "WordEngine \<Rightarrow> string \<Rightarrow> string \<Rightarrow> int \<times> WordEngine" where
  "getNumVowels eng lexicon w =
     (let looked = getWordInfo eng lexicon w; info = fst looked
      in (if isValid info then numVowels info else Auxil_getNumVowels w, fst (snd looked)))"

definition getNumUniqueLetters :: "WordEngine \<Rightarrow> string \<Rightarrow> string \<Rightarrow> int \<times> WordEngine" where
  "getNumUniqueLetters eng lexicon w =
     (let looked = getWordInfo eng lexicon w; info = fst looked
      in (if isValid info then numUniqueLetters info else Auxil_getNumUniqueLetters w,
          fst (snd looked)))"

definition getPointValue :: "WordEngine \<Rightarrow> string \<Rightarrow> string \<Rightarrow> int \<times> WordEngine" where
  "getPointValue eng lexicon w =
     (if eng lexicon = None then (0, eng)
      else (let looked = getWordInfo eng lexicon w; info = fst looked
            in (if isValid info then pointValue info else 0, fst (snd looked))))"

section \<open>Import of a word list\<close>






section \<open>Import of stems\<close>

text \<open>One turn of the loop over the lines of a stem file: the stems and alphagrams
  kept so far, the number imported and the length fixed by the first stem (zero before
  it).\<close>

definition importStemLine ::
  "string \<Rightarrow> string list \<times> string set \<times> int \<times> int \<Rightarrow> string list \<times> string set \<times> int \<times> int" where
  "importStemLine buffer acc =
     (case acc of (stemWords, alphagrams, imported, len) \<Rightarrow>
        (let line = simplified buffer
         in if line = [] \<or> hd line = CHR ''#'' then acc
            else
              (let w = section0 line;
                   len' = (if len = 0 then int (length w) else len)
               in if len' \<noteq> int (length w) then (stemWords, alphagrams, imported, len')
                  else (stemWords @ [w], insert (getAlphagram w) alphagrams, imported + 1,
                        len'))))"

definition importStems ::
  "WordEngine \<Rightarrow> string \<Rightarrow> string list option \<Rightarrow> int \<times> WordEngine" where
  "importStems eng lexicon file =
     (case eng lexicon of
        None \<Rightarrow> (0, eng)
      | Some d \<Rightarrow>
         (case file of
            None \<Rightarrow> (- 1, eng)
          | Some buffers \<Rightarrow>
             (case fold importStemLine buffers ([], {}, 0, 0) of
                (stemWords, alphagrams, imported, len) \<Rightarrow>
                  (imported,
                   eng(lexicon \<mapsto>
                     d\<lparr>stems := (stems d)(len \<mapsto>
                          (case stems d len of None \<Rightarrow> [] | Some ws \<Rightarrow> ws) @ stemWords),
                       stemAlphagrams := (stemAlphagrams d)(len \<mapsto>
                          (case stemAlphagrams d len of None \<Rightarrow> {} | Some S \<Rightarrow> S)
                            \<union> alphagrams)\<rparr>)))))"

text \<open>The stem alphagrams filed under a length have that length.\<close>

definition stemsWellFormed :: "LexiconData \<Rightarrow> bool" where
  "stemsWellFormed d =
     (\<forall>n S. stemAlphagrams d n = Some S \<longrightarrow> (\<forall>sa\<in>S. int (length sa) = n))"

section \<open>The invariant of the cache\<close>








section \<open>Example data\<close>

definition letterFrequency :: "char \<Rightarrow> int" where
  "letterFrequency c =
     (case map_of
        [(CHR ''A'', 9), (CHR ''B'', 2), (CHR ''C'', 2), (CHR ''D'', 4), (CHR ''E'', 12),
         (CHR ''F'', 2), (CHR ''G'', 3), (CHR ''H'', 2), (CHR ''I'', 9), (CHR ''J'', 1),
         (CHR ''K'', 1), (CHR ''L'', 4), (CHR ''M'', 2), (CHR ''N'', 6), (CHR ''O'', 8),
         (CHR ''P'', 2), (CHR ''Q'', 1), (CHR ''R'', 6), (CHR ''S'', 4), (CHR ''T'', 6),
         (CHR ''U'', 4), (CHR ''V'', 2), (CHR ''W'', 2), (CHR ''X'', 1), (CHR ''Y'', 2),
         (CHR ''Z'', 1)] c of
        Some n \<Rightarrow> n
      | None \<Rightarrow> 0)"

text \<open>Stand-ins for the collaborators: \<open>optimize\<close> changes nothing, the graph search
  answers the \<open>AnagramMatch\<close> conditions, and the number of combinations of a word is the
  product of the frequencies of its letters.\<close>

definition exampleCollaborators :: Collaborators where
  "exampleCollaborators =
     \<lparr> optimize = (\<lambda>spec. spec),
       graphSearch =
         (\<lambda>g spec. filter (\<lambda>w. list_all (\<lambda>c. type c = AnagramMatch \<longrightarrow>
                                      getAlphagram w = getAlphagram (stringValue c))
                                 (conditions spec)) g),
       stringToSearchSet = (\<lambda>s. UnknownSearchSet),
       getNumCombinations = (\<lambda>bag w. prod_list (map letterFrequency w)),
       getLetterValue = (\<lambda>bag c. 1) \<rparr>"

definition stemLexicon :: LexiconData where
  "stemLexicon =
     \<lparr> graph = [''RETAINS'', ''ENTASIA'', ''NOTARIES''], db = None, wordCache = Map.empty,
       numAnagramsMap = Map.empty, stems = [6 \<mapsto> [''SATIRE'']],
       stemAlphagrams = [6 \<mapsto> {''AEIRST''}], definitions = Map.empty \<rparr>"





definition anagramOfTac :: SearchSpec where
  "anagramOfTac =
     \<lparr> conjunction = True,
       conditions =
         [\<lparr> type = AnagramMatch, stringValue = ''TAC'', minValue = 0, maxValue = 0,
            boolValue = False, negated = False, legacy = False \<rparr>] \<rparr>"








section \<open>Type-One, Type-Two and Type-Three sets\<close>

lemma left_take: "i \<le> length s \<Longrightarrow> left (int i) s = take i s"
  by (simp add: left_def)

lemma right_drop: "i < length s \<Longrightarrow> right (int (length s) - int i - 1) s = drop (Suc i) s"
  by (auto simp: right_def nat_diff_distrib' intro!: arg_cong2[where f=drop])

lemma oneLetterRemoved_iff:
  "oneLetterRemoved S a \<longleftrightarrow> (\<exists>i<length a. take i a @ drop (Suc i) a \<in> S)"
  unfolding oneLetterRemoved_def list_ex_iff
  by (auto simp: left_take right_drop)

text \<open>The scan of \<open>SetTypeOneEights\<close> is a greedy subsequence test: when the budget
  of letters still allowed to be missing equals the difference of the lengths, the scan
  ends within the budget exactly when the stem alphagram is a subsequence.\<close>

lemma countMissing_subseq:
  "missing \<le> 2 \<Longrightarrow> int (length as) = int (length ss) + (2 - missing) \<Longrightarrow>
     countMissing as ss missing \<le> 2 \<longleftrightarrow> subseq ss as"
proof (induction as ss missing rule: countMissing.induct)
  case (1 a as s ss missing)
  show ?case
  proof (cases "a = s")
    case True
    with 1 show ?thesis by simp
  next
    case False
    show ?thesis
    proof (cases "missing + 1 > 2")
      case True
      with 1 have "length as < length (s # ss)" by simp
      then have "\<not> subseq (s # ss) as"
        using list_emb_length linorder_not_less by blast
      with True False show ?thesis by simp
    next
      case within: False
      with 1 False show ?thesis by simp
    qed
  qed
next
  case (2 ss missing)
  then have "ss = []" by (cases ss) auto
  with 2 show ?case by simp
next
  case (3 a as missing)
  then show ?case by simp
qed

text \<open>\<open>importStems\<close> keeps the stem alphagrams well formed.\<close>

lemma tokens_nonempty:
  "\<forall>c\<in>set acc. \<not> isSpace c \<Longrightarrow>
     \<forall>t\<in>set (tokens acc s). t \<noteq> [] \<and> (\<forall>c\<in>set t. \<not> isSpace c)"
proof (induction s arbitrary: acc)
  case Nil
  then show ?case by simp
next
  case (Cons c cs)
  have e: "\<forall>t\<in>set (tokens [] cs). t \<noteq> [] \<and> (\<forall>c\<in>set t. \<not> isSpace c)"
    by (rule Cons.IH) simp
  show ?case
  proof (cases "isSpace c")
    case True
    show ?thesis
    proof (cases "acc = []")
      case True
      with \<open>isSpace c\<close> e show ?thesis by simp
    next
      case False
      with \<open>isSpace c\<close> e Cons.prems show ?thesis by simp
    qed
  next
    case False
    with Cons.prems have "\<forall>x\<in>set (c # acc). \<not> isSpace x" by simp
    from Cons.IH [OF this] False show ?thesis by simp
  qed
qed

lemma joinSpace_hd: "t \<noteq> [] \<Longrightarrow> hd (joinSpace (t # ts)) = hd t"
  by (cases ts) auto

lemma section0_simplified:
  assumes "simplified s \<noteq> []"
  shows "section0 (simplified s) \<noteq> []"
proof -
  from assms obtain t ts where ts: "tokens [] s = t # ts"
    by (cases "tokens [] s") (auto simp: simplified_def)
  with tokens_nonempty [of "[]" s] have t: "t \<noteq> []" "\<not> isSpace (hd t)" by auto
  then have "hd t \<noteq> CHR '' ''" by (auto simp: isSpace_def)
  with t ts assms have "hd (simplified s) \<noteq> CHR '' ''"
    by (simp add: simplified_def joinSpace_hd)
  with assms show ?thesis
    by (cases "simplified s") (auto simp: section0_def)
qed

lemma importStemLine_lengths:
  assumes "(snd (snd (snd acc)) = 0 \<longrightarrow> fst (snd acc) = {})
           \<and> (\<forall>sa\<in>fst (snd acc). int (length sa) = snd (snd (snd acc)))"
  shows "(snd (snd (snd (importStemLine buffer acc))) = 0
            \<longrightarrow> fst (snd (importStemLine buffer acc)) = {})
         \<and> (\<forall>sa\<in>fst (snd (importStemLine buffer acc)).
               int (length sa) = snd (snd (snd (importStemLine buffer acc))))"
proof -
  obtain ws as n len where acc: "acc = (ws, as, n, len)" by (cases acc) auto
  show ?thesis
  proof (cases "simplified buffer = [] \<or> hd (simplified buffer) = CHR ''#''")
    case True
    with assms acc show ?thesis by (auto simp: importStemLine_def)
  next
    case False
    then have "section0 (simplified buffer) \<noteq> []" by (simp add: section0_simplified)
    with False assms acc show ?thesis
      by (auto simp: importStemLine_def Let_def getAlphagram_def split: if_splits)
  qed
qed

lemma fold_importStemLine_lengths:
  assumes "(snd (snd (snd acc)) = 0 \<longrightarrow> fst (snd acc) = {})
           \<and> (\<forall>sa\<in>fst (snd acc). int (length sa) = snd (snd (snd acc)))"
  shows "(snd (snd (snd (fold importStemLine buffers acc))) = 0
            \<longrightarrow> fst (snd (fold importStemLine buffers acc)) = {})
         \<and> (\<forall>sa\<in>fst (snd (fold importStemLine buffers acc)).
               int (length sa) = snd (snd (snd (fold importStemLine buffers acc))))"
  using assms
proof (induction buffers arbitrary: acc)
  case Nil
  then show ?case by simp
next
  case (Cons b bs)
  from Cons.IH [OF importStemLine_lengths [OF Cons.prems]] show ?case by simp
qed

lemma importStems_wellFormed:
  assumes "eng lexicon = Some d" and "stemsWellFormed d"
  shows "\<exists>d'. snd (importStems eng lexicon file) lexicon = Some d' \<and> stemsWellFormed d'"
proof (cases "file")
  case None
  with assms show ?thesis by (simp add: importStems_def)
next
  case (Some buffers)
  obtain ws as n len where f: "fold importStemLine buffers ([], {}, 0, 0) = (ws, as, n, len)"
    by (cases "fold importStemLine buffers ([], {}, 0, 0)") auto
  from fold_importStemLine_lengths [of "([], {}, 0, 0)" buffers] f
  have "\<forall>sa\<in>as. int (length sa) = len" by simp
  with assms f Some show ?thesis
    by (auto simp: importStems_def stemsWellFormed_def split: option.splits if_splits)
qed

text \<open>
  C7 (as amended).  In a lexicon whose stem alphagrams of length six are the set \<open>S\<close>:
  a seven-letter word is a Type-One seven exactly when its alphagram with the letter at
  some position removed is in \<open>S\<close>; an eight-letter word is a Type-One eight exactly
  when some member of \<open>S\<close> is a subsequence of its alphagram, that is the alphagram
  with two letters removed, the stem alphagrams being well formed as \<open>importStems\<close>
  leaves them (all members of \<open>S\<close> have six letters).
\<close>

theorem typeOne_characterisation:
  assumes "eng lexicon = Some d" and "stemAlphagrams d 6 = Some S"
  shows "(length w = 7 \<longrightarrow>
           (isSetMember E eng lexicon w SetTypeOneSevens \<longleftrightarrow>
             (\<exists>i<7. take i (getAlphagram w) @ drop (Suc i) (getAlphagram w) \<in> S)))
       \<and> (length w = 8 \<longrightarrow> stemsWellFormed d \<longrightarrow>
           (isSetMember E eng lexicon w SetTypeOneEights \<longleftrightarrow>
             (\<exists>sa\<in>S. subseq sa (getAlphagram w))))"
proof (intro conjI impI)
  assume "length w = 7"
  with assms show "isSetMember E eng lexicon w SetTypeOneSevens \<longleftrightarrow>
             (\<exists>i<7. take i (getAlphagram w) @ drop (Suc i) (getAlphagram w) \<in> S)"
    by (simp add: isSetMember.simps oneLetterRemoved_iff getAlphagram_def)
next
  assume len: "length w = 8" and wf: "stemsWellFormed d"
  from wf assms(2) have S: "\<forall>sa\<in>S. length sa = 6"
    by (fastforce simp: stemsWellFormed_def)
  have "countMissing (getAlphagram w) sa 0 \<le> 2 \<longleftrightarrow> subseq sa (getAlphagram w)"
    if "sa \<in> S" for sa
    using that S len by (intro countMissing_subseq) (auto simp: getAlphagram_def)
  with assms len show "isSetMember E eng lexicon w SetTypeOneEights \<longleftrightarrow>
             (\<exists>sa\<in>S. subseq sa (getAlphagram w))"
    by (simp add: isSetMember.simps)
qed

theorem typeOne_characterisation_witness:
  "[''L'' \<mapsto> stemLexicon] ''L'' = Some stemLexicon
   \<and> stemAlphagrams stemLexicon 6 = Some {''AEIRST''}
   \<and> length ''RETAINS'' = 7
   \<and> isSetMember exampleCollaborators [''L'' \<mapsto> stemLexicon] ''L'' ''RETAINS''
        SetTypeOneSevens
   \<and> (\<exists>i<7. take i (getAlphagram ''RETAINS'') @ drop (Suc i) (getAlphagram ''RETAINS'')
              \<in> {''AEIRST''})
   \<and> length ''NOTARIES'' = 8
   \<and> stemsWellFormed stemLexicon
   \<and> isSetMember exampleCollaborators [''L'' \<mapsto> stemLexicon] ''L'' ''NOTARIES''
        SetTypeOneEights
   \<and> (\<exists>sa\<in>{''AEIRST''}. subseq sa (getAlphagram ''NOTARIES''))"
proof -
  have d: "[''L'' \<mapsto> stemLexicon] ''L'' = Some stemLexicon" by simp
  have S: "stemAlphagrams stemLexicon 6 = Some {''AEIRST''}" by (simp add: stemLexicon_def)
  have wf: "stemsWellFormed stemLexicon"
    by (auto simp: stemsWellFormed_def stemLexicon_def split: if_splits)
  have one: "isSetMember exampleCollaborators [''L'' \<mapsto> stemLexicon] ''L'' ''RETAINS''
        SetTypeOneSevens"
    by (simp add: isSetMember.simps stemLexicon_def oneLetterRemoved_def getAlphagram_def
        left_def right_def)
  have two: "isSetMember exampleCollaborators [''L'' \<mapsto> stemLexicon] ''L'' ''NOTARIES''
        SetTypeOneEights"
    by (simp add: isSetMember.simps stemLexicon_def getAlphagram_def)
  from typeOne_characterisation [where eng = "[''L'' \<mapsto> stemLexicon]" and lexicon = "''L''"
      and w = "''RETAINS''" and E = exampleCollaborators, OF d S] one
  have three: "\<exists>i<7. take i (getAlphagram ''RETAINS'') @ drop (Suc i) (getAlphagram ''RETAINS'')
              \<in> {''AEIRST''}"
    by simp
  from typeOne_characterisation [where eng = "[''L'' \<mapsto> stemLexicon]" and lexicon = "''L''"
      and w = "''NOTARIES''" and E = exampleCollaborators, OF d S] two wf
  have four: "\<exists>sa\<in>{''AEIRST''}. subseq sa (getAlphagram ''NOTARIES'')"
    by simp
  from d S wf one two three four show ?thesis by simp
qed

text \<open>
  C7 as the claim words it for eights fails: \<open>NOTARIES\<close> is a Type-One eight over the
  stem \<open>SATIRE\<close>, yet no removal of one letter from its alphagram gives a stem
  alphagram of length six.
\<close>

theorem typeOneEights_counterexample:
  "stemAlphagrams stemLexicon 6 = Some {''AEIRST''}
   \<and> isSetMember exampleCollaborators [''L'' \<mapsto> stemLexicon] ''L'' ''NOTARIES''
        SetTypeOneEights
   \<and> \<not> oneLetterRemoved {''AEIRST''} (getAlphagram ''NOTARIES'')"
  by (simp add: isSetMember.simps stemLexicon_def oneLetterRemoved_def getAlphagram_def
      left_def right_def)

text \<open>
  C8.  For sevens and for eights, no word is in two of the sets Type-One, Type-Two and
  Type-Three: the three sets of a length-class are pairwise disjoint.
\<close>

theorem typeSets_disjoint:
  "\<not> (isSetMember E eng lexicon w SetTypeOneSevens
        \<and> isSetMember E eng lexicon w SetTypeTwoSevens)
 \<and> \<not> (isSetMember E eng lexicon w SetTypeOneSevens
        \<and> isSetMember E eng lexicon w SetTypeThreeSevens)
 \<and> \<not> (isSetMember E eng lexicon w SetTypeTwoSevens
        \<and> isSetMember E eng lexicon w SetTypeThreeSevens)
 \<and> \<not> (isSetMember E eng lexicon w SetTypeOneEights
        \<and> isSetMember E eng lexicon w SetTypeTwoEights)
 \<and> \<not> (isSetMember E eng lexicon w SetTypeOneEights
        \<and> isSetMember E eng lexicon w SetTypeThreeEights)
 \<and> \<not> (isSetMember E eng lexicon w SetTypeTwoEights
        \<and> isSetMember E eng lexicon w SetTypeThreeEights)"
proof -
  have two7: "\<not> isSetMember E eng lexicon w SetTypeOneSevens"
    if "isSetMember E eng lexicon w SetTypeTwoSevens"
    using that by (subst (asm) isSetMember.simps) (auto split: option.splits if_splits)
  have three7: "\<not> isSetMember E eng lexicon w SetTypeOneSevens
      \<and> \<not> isSetMember E eng lexicon w SetTypeTwoSevens"
    if "isSetMember E eng lexicon w SetTypeThreeSevens"
    using that by (subst (asm) isSetMember.simps) (auto split: option.splits if_splits)
  have two8: "\<not> isSetMember E eng lexicon w SetTypeOneEights"
    if "isSetMember E eng lexicon w SetTypeTwoEights"
    using that by (subst (asm) isSetMember.simps) (auto split: option.splits if_splits)
  have three8: "\<not> isSetMember E eng lexicon w SetTypeOneEights
      \<and> \<not> isSetMember E eng lexicon w SetTypeTwoEights"
    if "isSetMember E eng lexicon w SetTypeThreeEights"
    using that by (subst (asm) isSetMember.simps) (auto split: option.splits if_splits)
  from two7 three7 two8 three8 show ?thesis by blast
qed

theorem typeSets_disjoint_witness:
  "isSetMember exampleCollaborators [''L'' \<mapsto> stemLexicon] ''L'' ''ENTASIA'' SetTypeTwoSevens
   \<and> \<not> isSetMember exampleCollaborators [''L'' \<mapsto> stemLexicon] ''L'' ''ENTASIA''
          SetTypeOneSevens
   \<and> \<not> isSetMember exampleCollaborators [''L'' \<mapsto> stemLexicon] ''L'' ''ENTASIA''
          SetTypeThreeSevens"
proof -
  have "isSetMember exampleCollaborators [''L'' \<mapsto> stemLexicon] ''L'' ''ENTASIA''
          SetTypeTwoSevens"
    by (simp add: isSetMember.simps stemLexicon_def oneLetterRemoved_def getAlphagram_def
        left_def right_def typeTwoChars_def)
  with typeSets_disjoint [of exampleCollaborators "[''L'' \<mapsto> stemLexicon]" "''L''" "''ENTASIA''"]
  show ?thesis by blast
qed

section \<open>Operations on a lexicon that is not registered\<close>

text \<open>
  C4 (as amended).  For a lexicon name that is not registered, \<open>search\<close> returns the
  empty list, \<open>isAcceptable\<close> returns false, \<open>getWordInfo\<close> returns the invalid
  default \<open>WordInfo\<close>, the point value, the anagram count and the three probability
  orders are zero, and the engine is left as it was; the vowel count and the number of
  unique letters are calculated from the word itself.
\<close>

theorem unknownLexicon_defaults:
  assumes "eng lexicon = None"
  shows "search E eng lexicon spec allCaps = Inr ([], eng, [])
    \<and> isAcceptable eng lexicon w = False
    \<and> getWordInfo eng lexicon w = (WordInfo0, eng, [])
    \<and> \<not> isValid WordInfo0
    \<and> getPointValue eng lexicon w = (0, eng)
    \<and> getNumAnagrams eng lexicon w = (0, eng)
    \<and> getProbabilityOrder eng lexicon w = (0, eng)
    \<and> getMinProbabilityOrder eng lexicon w = (0, eng)
    \<and> getMaxProbabilityOrder eng lexicon w = (0, eng)
    \<and> getNumVowels eng lexicon w = (Auxil_getNumVowels w, eng)
    \<and> getNumUniqueLetters eng lexicon w = (Auxil_getNumUniqueLetters w, eng)"
  using assms
  by (simp add: search_def isAcceptable_def getWordInfo_def isValid_def WordInfo0_def
      getPointValue_def getNumAnagrams_def getProbabilityOrder_def getMinProbabilityOrder_def
      getMaxProbabilityOrder_def getNumVowels_def getNumUniqueLetters_def)

theorem unknownLexicon_defaults_witness:
  "(Map.empty :: WordEngine) ''NOPE'' = None
   \<and> search exampleCollaborators Map.empty ''NOPE'' anagramOfTac True = Inr ([], Map.empty, [])
   \<and> \<not> isAcceptable Map.empty ''NOPE'' ''CAT''
   \<and> getWordInfo Map.empty ''NOPE'' ''CAT'' = (WordInfo0, Map.empty, [])
   \<and> getPointValue Map.empty ''NOPE'' ''CAT'' = (0, Map.empty)
   \<and> getNumAnagrams Map.empty ''NOPE'' ''CAT'' = (0, Map.empty)
   \<and> getNumVowels Map.empty ''NOPE'' ''CAT'' = (1, Map.empty)
   \<and> getNumUniqueLetters Map.empty ''NOPE'' ''CAT'' = (3, Map.empty)"
  using unknownLexicon_defaults [of Map.empty "''NOPE''" exampleCollaborators anagramOfTac True
      "''CAT''"]
  by (simp add: Auxil_getNumVowels_def Auxil_getNumUniqueLetters_def)

text \<open>
  C4 as the claim words it fails for two of the getters: on an engine with no lexicon
  at all, the vowel count of \<open>CAT\<close> is 1 and its number of unique letters is 3, not
  zero.
\<close>

theorem unknownLexicon_numVowels_counterexample:
  "(Map.empty :: WordEngine) ''NOPE'' = None
   \<and> fst (getNumVowels Map.empty ''NOPE'' ''CAT'') = 1
   \<and> fst (getNumUniqueLetters Map.empty ''NOPE'' ''CAT'') = 3"
  by (simp add: getNumVowels_def getNumUniqueLetters_def getWordInfo_def isValid_def
      WordInfo0_def Auxil_getNumVowels_def Auxil_getNumUniqueLetters_def)

section \<open>The phases of a search\<close>




text \<open>A \<open>Length\<close> condition beside a condition of the word-graph phase lowers the
  count of the database phase to zero, and the phase stays a key of the map.\<close>

lemma added_length_keeps_database_phase:
  assumes "type l = Length" and "type c = AnagramMatch"
  shows "searchPhaseCounts E [l, c] DatabasePhase = Some 0"
  using assms
  by (simp add: searchPhaseCounts_def countPhases_def countPhase_def getConditionPhase_def)




section \<open>The cache after a search\<close>









section \<open>What the cache holds\<close>

lemma wordInfoOfRow_word [simp]: "word (wordInfoOfRow r) = col_word r"
  by (simp add: wordInfoOfRow_def)






section \<open>Anagram counts kept by the text import\<close>














section \<open>The query of an \<open>IncludeLetters\<close> condition\<close>


















section \<open>The casing of a word list\<close>







section \<open>The window of probability order\<close>



















end
